theory Spec2Isabelle
  imports Complex_Main
begin

section \<open>Python values, exceptions and numpy conventions\<close>

text \<open>
  The two modules compute with IEEE double precision numbers.  The embedding computes with
  exact real numbers instead: rounding is not modelled.  What is modelled is where a
  computation leaves the finite numbers or raises.  A Python \<open>float\<close> or \<open>int\<close> divided by
  zero raises \<open>ZeroDivisionError\<close>; a numpy scalar or array divided by zero, and the numpy
  square root of a negative number, give \<open>inf\<close> or \<open>nan\<close> (with a warning only).  A value of
  type \<open>npfloat\<close> is \<open>Some r\<close> for the finite number \<open>r\<close> and \<open>None\<close> for a result that is
  \<open>nan\<close> or infinite.
\<close>

datatype yaml_exc = ScannerError | ParserError | ReaderError | ComposerError | ConstructorError

datatype pyerr =
    ValueError
  | ZeroDivisionError
  | AttributeError
  | TypeError
  | IndexError
  | KeyError
  | RuntimeError
  | UnicodeDecodeError
  | OSError
  | YAMLError yaml_exc

type_synonym npfloat = "real option"

definition np_sqrt :: "real \<Rightarrow> npfloat" where
  "np_sqrt v = (if v < 0 then None else Some (sqrt v))"

definition np_log :: "real \<Rightarrow> npfloat" where
  "np_log v = (if v \<le> 0 then None else Some (ln v))"

text \<open>
  Elementwise operations of two one-dimensional arrays follow numpy's broadcasting rule:
  equal lengths pair up, an array of length one is repeated, anything else raises
  \<open>ValueError\<close>.
\<close>

definition np_broadcast :: "'a list \<Rightarrow> 'b list \<Rightarrow> pyerr + ('a \<times> 'b) list" where
  "np_broadcast xs ys =
     (if length xs = length ys then Inr (zip xs ys)
      else if length xs = 1 then Inr (map (\<lambda>y. (hd xs, y)) ys)
      else if length ys = 1 then Inr (map (\<lambda>x. (x, hd ys)) xs)
      else Inl ValueError)"

definition count_nonzero :: "bool list \<Rightarrow> nat" where
  "count_nonzero bs = length (filter (\<lambda>b. b) bs)"

text \<open>\<open>kwargs.get(key, default)\<close> on a dictionary of keyword arguments.\<close>

definition kwargs_get :: "(string \<rightharpoonup> 'v) \<Rightarrow> string \<Rightarrow> 'v \<Rightarrow> 'v" where
  "kwargs_get kwargs k d = (case kwargs k of None \<Rightarrow> d | Some v \<Rightarrow> v)"


section \<open>risk.py: guard band factors\<close>

text \<open>
  \<open>guardband_norm(method, TUR, **kwargs)\<close>.  \<open>TUR\<close> is a Python float, so \<open>1/TUR\<close> and
  \<open>1/TUR**2\<close> raise \<open>ZeroDivisionError\<close> at \<open>TUR = 0\<close>.  In the \<open>dobbert\<close> branch \<open>np.log\<close>
  turns the value into a numpy scalar before the division, so that branch never raises.
  The double integral \<open>PFA_norm\<close> and the root finder \<open>fsolve\<close> of the \<open>pfa\<close> and \<open>4:1\<close>
  branches belong to scipy; they are parameters \<open>pfa_norm itp TUR GB\<close> and
  \<open>fsolve f x0\<close>.
\<close>

definition guardband_norm ::
  "(real \<Rightarrow> real \<Rightarrow> real \<Rightarrow> real) \<Rightarrow> ((real \<Rightarrow> real) \<Rightarrow> real \<Rightarrow> real) \<Rightarrow>
   string \<Rightarrow> real \<Rightarrow> (string \<rightharpoonup> real) \<Rightarrow> pyerr + npfloat" where
  "guardband_norm pfa_norm fsolve method TUR kwargs =
     (if method = ''dobbert'' then
        (case np_log TUR of
           None \<Rightarrow> Inr None
         | Some l \<Rightarrow> let M = 1.04 - exp (0.38 * l - 0.54) in Inr (Some (1 - M / TUR)))
      else if method = ''rss'' then
        (if TUR ^ 2 = 0 then Inl ZeroDivisionError else Inr (np_sqrt (1 - 1 / TUR ^ 2)))
      else if method = ''test'' then
        (if TUR \<le> 4 then (if TUR = 0 then Inl ZeroDivisionError else Inr (Some (1 - 1 / TUR)))
         else Inr (Some 1))
      else if method = ''rp10'' then
        (if TUR \<le> 4 then (if TUR = 0 then Inl ZeroDivisionError else Inr (Some (1.25 - 1 / TUR)))
         else Inr (Some 1))
      else if method \<in> set [''pfa'', ''4:1''] then
        (let itp = kwargs_get kwargs ''itp'' 0.95;
             pfa_target = (if method = ''pfa'' then kwargs_get kwargs ''pfa'' 0.008
                           else pfa_norm itp 4 1)
         in Inr (Some (fsolve (\<lambda>x. pfa_norm itp TUR x - pfa_target) 0.8)))
      else Inl ValueError)"


section \<open>risk.py: the Risk class\<close>

text \<open>
  A frozen scipy distribution is used through its median, its cumulative distribution
  function and its standard deviation.  \<open>procdist\<close> and \<open>testdist\<close> may be \<open>None\<close>
  (\<open>from_config\<close> stores \<open>None\<close> for a missing entry).
\<close>

record rv_frozen =
  median :: real
  cdf :: "real \<Rightarrow> real"
  std :: real

record Risk =
  procdist :: "rv_frozen option"
  testdist :: "rv_frozen option"
  speclimits :: "real \<times> real"
  guardband :: "real \<times> real"

definition set_speclimits :: "Risk \<Rightarrow> real \<Rightarrow> real \<Rightarrow> Risk" where
  "set_speclimits self LL UL = self\<lparr>speclimits := (LL, UL)\<rparr>"

definition set_guardband :: "Risk \<Rightarrow> real \<Rightarrow> real \<Rightarrow> Risk" where
  "set_guardband self GBL GBU = self\<lparr>guardband := (GBL, GBU)\<rparr>"



text \<open>
  \<open>test_risk\<close> reads \<open>self.guardband[0]\<close> at both ends of the acceptance interval.
  With no test distribution \<open>self.testdist.median()\<close> raises \<open>AttributeError\<close>.
\<close>

definition test_risk :: "Risk \<Rightarrow> pyerr + (real \<times> bool)" where
  "test_risk self =
     (case testdist self of
        None \<Rightarrow> Inl AttributeError
      | Some td \<Rightarrow>
          let med = median td;
              LL0 = fst (speclimits self);
              UL0 = snd (speclimits self);
              LL = min LL0 UL0;
              UL = max LL0 UL0;
              accept = (med \<ge> LL + fst (guardband self) \<and> med \<le> UL - fst (guardband self));
              PFx = (if med \<ge> LL + fst (guardband self) \<and> med \<le> UL - fst (guardband self)
                     then cdf td LL + (1 - cdf td UL)
                     else \<bar>cdf td LL - cdf td UL\<bar>)
          in Inr (PFx, accept))"

text \<open>
  The acceptance interval of the data model, \<open>[LL + GBL, UL - GBU]\<close> with the limits
  normalised, as \<open>set_guardband\<close> documents it and as \<open>PFA\<close>, \<open>PFR\<close> and \<open>PFAR_MC\<close> use it.
\<close>

definition in_acceptance_interval :: "Risk \<Rightarrow> real \<Rightarrow> bool" where
  "in_acceptance_interval self v =
     (let LL = min (fst (speclimits self)) (snd (speclimits self));
          UL = max (fst (speclimits self)) (snd (speclimits self))
      in LL + fst (guardband self) \<le> v \<and> v \<le> UL - snd (guardband self))"

text \<open>
  A uniform test distribution on \<open>[0.3, 1.3]\<close> (median \<open>0.8\<close>) in a Risk with limits
  \<open>(-1, 1)\<close> and the asymmetric guard band \<open>(0, 0.5)\<close>.
\<close>

definition uniform_03_13 :: rv_frozen where
  "uniform_03_13 =
     \<lparr>median = 0.8, cdf = (\<lambda>v. min 1 (max 0 (v - 0.3))), std = sqrt (1 / 12)\<rparr>"

definition risk_asym :: Risk where
  "risk_asym =
     \<lparr>procdist = None, testdist = Some uniform_03_13,
      speclimits = (-1, 1), guardband = (0, 0.5)\<rparr>"


section \<open>risk.py: Monte Carlo false accept and false reject\<close>

text \<open>
  \<open>PFAR_MC\<close> draws its samples from scipy's random generator.  The draws are inputs of the
  model: \<open>rvs N\<close> is the array that \<open>dist_proc.rvs(size=N)\<close> returns, and \<open>rvs_loc locs\<close> the
  array that \<open>dist_test.dist.rvs(loc=locs, **kwds)\<close> returns.  \<open>loc_kwd\<close> is the entry \<open>loc\<close>
  of the distribution's arguments, if there is one.  \<open>np.count_nonzero\<close> returns a Python
  int, so \<open>N = 0\<close> raises \<open>ZeroDivisionError\<close>.
\<close>

record proc_sampler =
  rvs :: "nat \<Rightarrow> real list"

record test_sampler =
  test_median :: real
  loc_kwd :: "real option"
  rvs_loc :: "real list \<Rightarrow> real list"

definition is_FA :: "real \<Rightarrow> real \<Rightarrow> real \<Rightarrow> real \<Rightarrow> real \<times> real \<Rightarrow> bool" where
  "is_FA LL UL GBL GBU pt =
     (case pt of (p, t) \<Rightarrow> (p > UL \<and> t < UL - GBU) \<or> (p < LL \<and> t > LL + GBL))"

definition is_FR :: "real \<Rightarrow> real \<Rightarrow> real \<Rightarrow> real \<Rightarrow> real \<times> real \<Rightarrow> bool" where
  "is_FR LL UL GBL GBU pt =
     (case pt of (p, t) \<Rightarrow> (p < UL \<and> t > UL - GBU) \<or> (p > LL \<and> t < LL + GBL))"

definition PFAR_MC ::
  "proc_sampler \<Rightarrow> test_sampler \<Rightarrow> real \<Rightarrow> real \<Rightarrow> real \<Rightarrow> real \<Rightarrow> nat \<Rightarrow>
   pyerr + (real \<times> real)" where
  "PFAR_MC dist_proc dist_test LL UL GBL GBU N =
     (let proc_samples = rvs dist_proc N;
          med = test_median dist_test;
          locorig = (case loc_kwd dist_test of None \<Rightarrow> 0 | Some l \<Rightarrow> l);
          test_samples = rvs_loc dist_test (map (\<lambda>p. p - (med - locorig)) proc_samples)
      in case np_broadcast proc_samples test_samples of
           Inl e \<Rightarrow> Inl e
         | Inr pts \<Rightarrow>
             if N = 0 then Inl ZeroDivisionError
             else Inr (real (count_nonzero (map (is_FA LL UL GBL GBU) pts)) / real N,
                       real (count_nonzero (map (is_FR LL UL GBL GBU) pts)) / real N))"

text \<open>
  The false reject condition in the words of the specification: the process sample is
  inside both limits and the test sample is on the reject side of a guard-banded limit.
\<close>

definition spec_is_FR :: "real \<Rightarrow> real \<Rightarrow> real \<Rightarrow> real \<Rightarrow> real \<times> real \<Rightarrow> bool" where
  "spec_is_FR LL UL GBL GBU pt =
     (case pt of (p, t) \<Rightarrow> (LL < p \<and> p < UL) \<and> (t > UL - GBU \<or> t < LL + GBL))"

definition spec_is_FA :: "real \<Rightarrow> real \<Rightarrow> real \<Rightarrow> real \<Rightarrow> real \<times> real \<Rightarrow> bool" where
  "spec_is_FA LL UL GBL GBU pt =
     (case pt of (p, t) \<Rightarrow> (p > UL \<and> t < UL - GBU) \<or> (p < LL \<and> t > LL + GBL))"

text \<open>One draw: a process sample below the lower limit, its test sample above the upper.\<close>

definition proc_one :: proc_sampler where
  "proc_one = \<lparr>rvs = (\<lambda>n. replicate n (-2))\<rparr>"

definition test_one :: test_sampler where
  "test_one = \<lparr>test_median = 0, loc_kwd = Some 0, rvs_loc = (\<lambda>locs. map (\<lambda>l. l + 4) locs)\<rparr>"

section \<open>curvefit.py: arithmetic on numpy values\<close>

text \<open>
  Arithmetic on \<open>npfloat\<close>: a \<open>nan\<close> or infinite operand gives a result that is not finite,
  and so does a division by zero.  (A division by an infinite number would give zero; no
  divisor below can be infinite.)
\<close>

definition fl_add :: "npfloat \<Rightarrow> npfloat \<Rightarrow> npfloat" where
  "fl_add a b = (case a of None \<Rightarrow> None | Some u \<Rightarrow> (case b of None \<Rightarrow> None | Some v \<Rightarrow> Some (u + v)))"

definition fl_sub :: "npfloat \<Rightarrow> npfloat \<Rightarrow> npfloat" where
  "fl_sub a b = (case a of None \<Rightarrow> None | Some u \<Rightarrow> (case b of None \<Rightarrow> None | Some v \<Rightarrow> Some (u - v)))"

definition fl_mul :: "npfloat \<Rightarrow> npfloat \<Rightarrow> npfloat" where
  "fl_mul a b = (case a of None \<Rightarrow> None | Some u \<Rightarrow> (case b of None \<Rightarrow> None | Some v \<Rightarrow> Some (u * v)))"

definition fl_div :: "npfloat \<Rightarrow> npfloat \<Rightarrow> npfloat" where
  "fl_div a b =
     (case a of None \<Rightarrow> None
      | Some u \<Rightarrow> (case b of None \<Rightarrow> None | Some v \<Rightarrow> if v = 0 then None else Some (u / v)))"

definition fl_neg :: "npfloat \<Rightarrow> npfloat" where
  "fl_neg a = (case a of None \<Rightarrow> None | Some u \<Rightarrow> Some (- u))"

definition fl_sqrt :: "npfloat \<Rightarrow> npfloat" where
  "fl_sqrt a = (case a of None \<Rightarrow> None | Some u \<Rightarrow> np_sqrt u)"

text \<open>Python's builtin \<open>sum\<close>: start at \<open>0\<close> and add the elements from the left.\<close>

definition py_sum :: "npfloat list \<Rightarrow> npfloat" where
  "py_sum xs = foldl fl_add (Some 0) xs"


text \<open>An elementwise operation of two arrays, and sequencing of steps that may raise.\<close>

definition arr_op ::
  "(npfloat \<Rightarrow> npfloat \<Rightarrow> npfloat) \<Rightarrow> npfloat list \<Rightarrow> npfloat list \<Rightarrow> pyerr + npfloat list" where
  "arr_op f xs ys =
     (case np_broadcast xs ys of Inl e \<Rightarrow> Inl e | Inr ps \<Rightarrow> Inr (map (\<lambda>(u, v). f u v) ps))"

definition ebind :: "pyerr + 'a \<Rightarrow> ('a \<Rightarrow> pyerr + 'b) \<Rightarrow> pyerr + 'b" where
  "ebind m f = (case m of Inl e \<Rightarrow> Inl e | Inr v \<Rightarrow> f v)"

text \<open>
  Python's builtin \<open>all\<close> on an array of numbers: every element is truthy, that is, not
  zero.  \<open>all(sig) > 0\<close> compares the resulting bool, as the integer \<open>1\<close> or \<open>0\<close>, with \<open>0\<close>.
\<close>

definition py_all :: "real list \<Rightarrow> bool" where
  "py_all xs = list_all (\<lambda>v. v \<noteq> 0) xs"

definition all_gt_0 :: "real list \<Rightarrow> bool" where
  "all_gt_0 xs = ((if py_all xs then (1::int) else 0) > 0)"


section \<open>curvefit.py: linefit\<close>

text \<open>
  \<open>linefit(x, y, sig, absolute_sigma)\<close>.  \<open>x\<close> and \<open>y\<close> are arrays of finite numbers and
  \<open>sig\<close> is the array after \<open>np.atleast_1d\<close>.  \<open>sig_full\<close> is the repetition of a \<open>sig\<close> of
  length one.  The sums of an empty array are the Python int \<open>0\<close>, so that \<open>sx/ss\<close> raises
  \<open>ZeroDivisionError\<close> when there is no data; every other division is a numpy division.
  The six values computed by each branch are \<open>(sx, sy, ss, sxoss, st2, b)\<close>.
\<close>

definition sig_full :: "real list \<Rightarrow> real list \<Rightarrow> real list" where
  "sig_full x sig = (if length sig = 1 then replicate (length x) (hd sig) else sig)"

type_synonym linefit_sums = "npfloat \<times> npfloat \<times> npfloat \<times> npfloat \<times> npfloat \<times> npfloat"

definition linefit_wt :: "npfloat list \<Rightarrow> npfloat list" where
  "linefit_wt sig = map (\<lambda>s. fl_div (Some 1) (fl_mul s s)) sig"

definition linefit_weighted ::
  "npfloat list \<Rightarrow> npfloat list \<Rightarrow> npfloat list \<Rightarrow> pyerr + linefit_sums" where
  "linefit_weighted x y sig =
     (let wt = linefit_wt sig;
          ss = py_sum wt
      in ebind (arr_op fl_mul x wt) (\<lambda>xw.
         ebind (arr_op fl_mul y wt) (\<lambda>yw.
           let sx = py_sum xw;
               sy = py_sum yw
           in if sig = [] then Inl ZeroDivisionError
              else
                let sxoss = fl_div sx ss
                in ebind (arr_op fl_div (map (\<lambda>v. fl_sub v sxoss) x) sig) (\<lambda>t.
                     let st2 = py_sum (map (\<lambda>v. fl_mul v v) t)
                     in ebind (arr_op fl_mul t y) (\<lambda>ty.
                        ebind (arr_op fl_div ty sig) (\<lambda>tys.
                          Inr (sx, sy, ss, sxoss, st2, fl_div (py_sum tys) st2)))))))"

definition linefit_unweighted :: "npfloat list \<Rightarrow> npfloat list \<Rightarrow> pyerr + linefit_sums" where
  "linefit_unweighted x y =
     (let sx = py_sum x;
          sy = py_sum y
      in if x = [] then Inl ZeroDivisionError
         else
           let ss = Some (real (length x));
               sxoss = fl_div sx ss;
               t = map (\<lambda>v. fl_sub v sxoss) x;
               st2 = py_sum (map (\<lambda>v. fl_mul v v) t)
           in ebind (arr_op fl_mul t y) (\<lambda>ty.
                Inr (sx, sy, ss, sxoss, st2, fl_div (py_sum ty) st2)))"

text \<open>The residuals \<open>y - a - b*x\<close> and the degrees of freedom \<open>len(x) - 2\<close>.\<close>

definition linefit_resid ::
  "npfloat list \<Rightarrow> npfloat list \<Rightarrow> npfloat \<Rightarrow> npfloat \<Rightarrow> pyerr + npfloat list" where
  "linefit_resid x y a b = arr_op fl_sub (map (\<lambda>v. fl_sub v a) y) (map (\<lambda>v. fl_mul b v) x)"

definition len_minus_2 :: "npfloat list \<Rightarrow> npfloat" where
  "len_minus_2 x = Some (real_of_int (int (length x) - 2))"

definition linefit ::
  "real list \<Rightarrow> real list \<Rightarrow> real list \<Rightarrow> bool \<Rightarrow>
   pyerr + (npfloat list \<times> npfloat list list)" where
  "linefit xs ys sig0 absolute_sigma =
     (let x = map Some xs;
          y = map Some ys;
          sigr = sig_full xs sig0;
          sig = map Some sigr
      in ebind (if all_gt_0 sigr then linefit_weighted x y sig else linefit_unweighted x y)
           (\<lambda>(sx, sy, ss, sxoss, st2, b).
              let a = fl_div (fl_sub sy (fl_mul sx b)) ss;
                  siga = fl_sqrt (fl_div (fl_add (Some 1) (fl_div (fl_mul sx sx) (fl_mul ss st2))) ss);
                  sigb = fl_sqrt (fl_div (Some 1) st2)
              in ebind (linefit_resid x y a b) (\<lambda>r.
                   let resid = py_sum (map (\<lambda>v. fl_mul v v) r);
                       syx = fl_sqrt (fl_div resid (len_minus_2 x));
                       cov = fl_mul (fl_neg sxoss) (fl_mul sigb sigb)
                   in if \<not> all_gt_0 sigr then
                        (let siga1 = fl_mul siga syx;
                             sigb1 = fl_mul sigb syx;
                             cov1 = fl_mul (fl_mul cov syx) syx
                         in Inr ([b, a], [[fl_mul sigb1 sigb1, cov1], [cov1, fl_mul siga1 siga1]]))
                      else if \<not> absolute_sigma then
                        ebind (linefit_resid x y a b) (\<lambda>r2.
                        ebind (arr_op fl_div r2 sig) (\<lambda>rs.
                          let chi2 = fl_div (py_sum (map (\<lambda>v. fl_mul v v) rs)) (len_minus_2 x);
                              siga2 = fl_sqrt (fl_mul (fl_mul siga siga) chi2);
                              sigb2 = fl_sqrt (fl_mul (fl_mul sigb sigb) chi2);
                              cov2 = fl_mul cov chi2
                          in Inr ([b, a], [[fl_mul sigb2 sigb2, cov2], [cov2, fl_mul siga2 siga2]])))
                      else Inr ([b, a], [[fl_mul sigb sigb, cov], [cov, fl_mul siga siga]]))))"

text \<open>
  The unweighted fit in the usual notation, for data with \<open>n > 2\<close> points that are not all
  at the same \<open>x\<close>: the centred values \<open>t\<close>, the sum of squares \<open>st2\<close>, slope, intercept, and
  the residual-based standard error \<open>syx\<close>.
\<close>

definition mean_x :: "real list \<Rightarrow> real" where
  "mean_x xs = sum_list xs / real (length xs)"

definition st2_of :: "real list \<Rightarrow> real" where
  "st2_of xs = (\<Sum>v\<leftarrow>xs. (v - mean_x xs) * (v - mean_x xs))"

definition slope_of :: "real list \<Rightarrow> real list \<Rightarrow> real" where
  "slope_of xs ys = (\<Sum>(v, w)\<leftarrow>zip xs ys. (v - mean_x xs) * w) / st2_of xs"

definition intercept_of :: "real list \<Rightarrow> real list \<Rightarrow> real" where
  "intercept_of xs ys = (sum_list ys - sum_list xs * slope_of xs ys) / real (length xs)"

definition syx2_of :: "real list \<Rightarrow> real list \<Rightarrow> real" where
  "syx2_of xs ys =
     (\<Sum>(v, w)\<leftarrow>zip xs ys. (w - intercept_of xs ys - slope_of xs ys * v)
                             * (w - intercept_of xs ys - slope_of xs ys * v))
     / (real (length xs) - 2)"


section \<open>Loading a configuration file\<close>

text \<open>
  \<open>CurveFit.from_configfile\<close> and \<open>Risk.from_configfile\<close> have the same body and differ in
  the \<open>from_config\<close> they end with, which is a parameter here.  \<open>fname\<close> is an open file,
  given by what its \<open>read()\<close> does, or a file name, given by what opening and reading the
  file does.  A file name has no \<open>read\<close>, which is the \<open>AttributeError\<close> the inner \<open>try\<close>
  expects; a file object whose \<open>read\<close> raises \<open>AttributeError\<close> is passed to \<open>open\<close>, which
  raises \<open>TypeError\<close>.  The YAML library is not part of the repository: \<open>safe_load\<close> is a
  parameter that returns the parsed document or the exception it raises.
\<close>

datatype yaml = YNull | YNum real | YStr string | YList "yaml list" | YMap "(string \<times> yaml) list"

datatype fname = FileObject "pyerr + string" | FileName "pyerr + string"

definition read_fname :: "fname \<Rightarrow> pyerr + string" where
  "read_fname f =
     (case f of
        FileObject r \<Rightarrow> (case r of Inl e \<Rightarrow> if e = AttributeError then Inl TypeError else Inl e
                                  | Inr t \<Rightarrow> Inr t)
      | FileName r \<Rightarrow> r)"

text \<open>\<open>config[0]\<close> on a loaded document.\<close>

definition subscript0 :: "yaml \<Rightarrow> pyerr + yaml" where
  "subscript0 c =
     (case c of
        YNull \<Rightarrow> Inl TypeError
      | YNum v \<Rightarrow> Inl TypeError
      | YStr t \<Rightarrow> (case t of [] \<Rightarrow> Inl IndexError | ch # r \<Rightarrow> Inr (YStr [ch]))
      | YList l \<Rightarrow> (case l of [] \<Rightarrow> Inl IndexError | e # r \<Rightarrow> Inr e)
      | YMap m \<Rightarrow> Inl KeyError)"

text \<open>The result \<open>Inr None\<close> is the \<open>return None\<close> of the two handlers.\<close>

definition from_configfile ::
  "(string \<Rightarrow> pyerr + yaml) \<Rightarrow> (yaml \<Rightarrow> pyerr + 'a) \<Rightarrow> fname \<Rightarrow> pyerr + 'a option" where
  "from_configfile safe_load from_config f =
     (case read_fname f of
        Inl e \<Rightarrow> if e = UnicodeDecodeError then Inr None else Inl e
      | Inr yml \<Rightarrow>
          (case safe_load yml of
             Inl e \<Rightarrow> if e = YAMLError ScannerError then Inr None else Inl e
           | Inr config \<Rightarrow>
               ebind (subscript0 config) (\<lambda>c0.
               ebind (from_config c0) (\<lambda>u. Inr (Some u)))))"

text \<open>
  What the YAML library does on three documents: a one-element list holding a mapping
  loads; \<open>a: b: c\<close> stops the scanner (mapping values are not allowed there); the unclosed
  flow sequence \<open>[1, 2\<close> scans but stops the parser.
\<close>

definition safe_load_sample :: "string \<Rightarrow> pyerr + yaml" where
  "safe_load_sample t =
     (if t = ''- {mode: risk}'' then Inr (YList [YMap [(''mode'', YStr ''risk'')]])
      else if t = ''a: b: c'' then Inl (YAMLError ScannerError)
      else if t = ''[1, 2'' then Inl (YAMLError ParserError)
      else Inr YNull)"

definition from_config_sample :: "yaml \<Rightarrow> pyerr + yaml" where
  "from_config_sample c = Inr c"


section \<open>curvefit.py: CurveFitParam\<close>

text \<open>
  Modelled from the spec: the output objects of \<open>out_uncert.create_output\<close> and
  \<open>out_curvefit.create_output_curvefit\<close> are not among the sources.  An output object is
  created from keyword arguments and read through attributes; the model is the dictionary
  of its attributes, and reading an attribute that was never given raises \<open>AttributeError\<close>.
  A CurveFitParam output stores \<open>mean\<close> and \<open>uncert\<close> as arrays of one element.
\<close>

datatype attr = Num npfloat | Arr "npfloat list" | Fn "real \<Rightarrow> npfloat"

type_synonym output_obj = "string \<rightharpoonup> attr"

definition getattr :: "output_obj \<Rightarrow> string \<Rightarrow> pyerr + attr" where
  "getattr obj name = (case obj name of None \<Rightarrow> Inl AttributeError | Some a \<Rightarrow> Inr a)"

definition call_attr :: "attr \<Rightarrow> real \<Rightarrow> pyerr + npfloat" where
  "call_attr a v = (case a of Fn f \<Rightarrow> Inr (f v) | Num u \<Rightarrow> Inl TypeError | Arr us \<Rightarrow> Inl TypeError)"

definition item0 :: "attr \<Rightarrow> pyerr + npfloat" where
  "item0 a =
     (case a of
        Arr us \<Rightarrow> (case us of [] \<Rightarrow> Inl IndexError | u # r \<Rightarrow> Inr u)
      | Num u \<Rightarrow> Inl IndexError
      | Fn f \<Rightarrow> Inl TypeError)"

definition create_output :: "npfloat \<Rightarrow> npfloat \<Rightarrow> (string \<rightharpoonup> attr) \<Rightarrow> output_obj" where
  "create_output mean_v uncert_v properties =
     properties(''mean'' \<mapsto> Arr [mean_v], ''uncert'' \<mapsto> Arr [uncert_v])"

text \<open>
  The record that \<open>CurveFit.calc_LSQ\<close> returns, as CurveFitParam reads it: the coefficient
  means and uncertainties, the fitted curve \<open>y\<close>, the prediction band \<open>u_pred\<close>, and the
  dictionary \<open>properties\<close> that is passed on.  \<open>pidx\<close> is a coefficient index in mode
  \<open>param\<close> and an \<open>x\<close> value in mode \<open>pred\<close>; it is a Python \<open>int\<close> or \<open>float\<close>, and
  \<open>pidx_int\<close> tells which.
\<close>

record fit_record =
  r_mean :: "npfloat list"
  r_uncert :: "npfloat list"
  r_y :: "real \<Rightarrow> npfloat"
  r_u_pred :: "real \<Rightarrow> npfloat"
  r_properties :: "string \<rightharpoonup> attr"

record CurveFitParam =
  pidx :: real
  pidx_int :: bool
  mode :: string
  outputs :: "string \<rightharpoonup> output_obj"

text \<open>
  Indexing a numpy array with \<open>pidx\<close>: a \<open>float\<close>, whatever its value, raises \<open>IndexError\<close>;
  an \<open>int\<close> selects an element, negative ones counting from the end.
\<close>

definition index_pidx :: "npfloat list \<Rightarrow> bool \<Rightarrow> real \<Rightarrow> pyerr + npfloat" where
  "index_pidx us is_int p =
     (if \<not> is_int \<or> p \<notin> \<int> then Inl IndexError
      else if 0 \<le> p \<and> p < real (length us) then Inr (us ! nat \<lfloor>p\<rfloor>)
      else if p < 0 \<and> - real (length us) \<le> p then Inr (us ! nat (int (length us) + \<lfloor>p\<rfloor>))
      else Inl IndexError)"

text \<open>
  \<open>CurveFitParam.calc_LSQ\<close>; \<open>lsq\<close> is what \<open>self.ifunc.calc_LSQ()\<close> does.  The result is
  the returned output, or the exception, and the object after the call.
\<close>

definition param_calc_LSQ ::
  "(pyerr + fit_record) \<Rightarrow> CurveFitParam \<Rightarrow> (pyerr + output_obj) \<times> CurveFitParam" where
  "param_calc_LSQ lsq self =
     (case lsq of
        Inl e \<Rightarrow> (Inl e, self)
      | Inr lsqout \<Rightarrow>
          if mode self = ''param'' then
            (case ebind (index_pidx (r_mean lsqout) (pidx_int self) (pidx self)) (\<lambda>m.
                  ebind (index_pidx (r_uncert lsqout) (pidx_int self) (pidx self)) (\<lambda>u.
                    Inr (create_output m u (r_properties lsqout)))) of
               Inl e \<Rightarrow> (Inl e, self)
             | Inr out \<Rightarrow> (Inr out, self\<lparr>outputs := (outputs self)(''lsq'' \<mapsto> out)\<rparr>))
          else if mode self = ''pred'' then
            (let out = create_output (r_y lsqout (pidx self)) (r_u_pred lsqout (pidx self))
                         (r_properties lsqout)
             in (Inr out, self\<lparr>outputs := (outputs self)(''lsq'' \<mapsto> out)\<rparr>))
          else
            (case outputs self ''lsq'' of
               None \<Rightarrow> (Inl KeyError, self)
             | Some out \<Rightarrow> (Inr out, self)))"

text \<open>\<open>CurveFitParam.stdunc\<close>.  The bare \<open>raise\<close> of the last branch is a \<open>RuntimeError\<close>.\<close>

definition stdunc ::
  "(pyerr + fit_record) \<Rightarrow> CurveFitParam \<Rightarrow> (pyerr + npfloat) \<times> CurveFitParam" where
  "stdunc lsq self =
     (if mode self = ''param'' then
        (case outputs self ''lsq'' of
           Some out \<Rightarrow> (ebind (getattr out ''uncert'') item0, self)
         | None \<Rightarrow>
        (case outputs self ''mc'' of
           Some out \<Rightarrow> (ebind (getattr out ''uncert'') item0, self)
         | None \<Rightarrow>
        (case outputs self ''gum'' of
           Some out \<Rightarrow> (ebind (getattr out ''uncert'') item0, self)
         | None \<Rightarrow>
            (case param_calc_LSQ lsq self of
               (Inl e, self1) \<Rightarrow> (Inl e, self1)
             | (Inr r, self1) \<Rightarrow>
                 (case outputs self1 ''lsq'' of
                    None \<Rightarrow> (Inl KeyError, self1)
                  | Some out \<Rightarrow> (ebind (getattr out ''uncert'') item0, self1))))))
      else if mode self = ''pred'' then
        (case outputs self ''lsq'' of
           Some out \<Rightarrow> (ebind (getattr out ''u_pred'') (\<lambda>f. call_attr f (pidx self)), self)
         | None \<Rightarrow>
        (case outputs self ''mc'' of
           Some out \<Rightarrow> (ebind (getattr out ''u_pred'') (\<lambda>f. call_attr f (pidx self)), self)
         | None \<Rightarrow>
        (case outputs self ''gum'' of
           Some out \<Rightarrow> (ebind (getattr out ''u_pred'') (\<lambda>f. call_attr f (pidx self)), self)
         | None \<Rightarrow>
            (case param_calc_LSQ lsq self of
               (Inl e, self1) \<Rightarrow> (Inl e, self1)
             | (Inr r, self1) \<Rightarrow>
                 (case outputs self1 ''lsq'' of
                    None \<Rightarrow> (Inl KeyError, self1)
                  | Some out \<Rightarrow>
                      (ebind (getattr out ''u_predy'') (\<lambda>f. call_attr f (pidx self1)), self1))))))
      else (Inl RuntimeError, self))"

text \<open>
  A least squares record with the keywords that \<open>CurveFit.calc_LSQ\<close> passes on
  (prediction band \<open>2 x\<close>), and a CurveFitParam in mode \<open>pred\<close> at \<open>x = 1.5\<close> with an empty
  cache.
\<close>

definition lsq_sample :: fit_record where
  "lsq_sample =
     \<lparr>r_mean = [Some 3, Some 2], r_uncert = [Some 1, Some 1],
      r_y = (\<lambda>v. Some (2 + 3 * v)), r_u_pred = (\<lambda>v. Some (2 * v)),
      r_properties = [''u_conf'' \<mapsto> Fn (\<lambda>v. Some v), ''u_pred'' \<mapsto> Fn (\<lambda>v. Some (2 * v)),
                      ''degf'' \<mapsto> Num (Some 1)]\<rparr>"

definition param_sample :: CurveFitParam where
  "param_sample = \<lparr>pidx = 3 / 2, pidx_int = False, mode = ''pred'', outputs = Map.empty\<rparr>"


section \<open>curvefit.py: the CurveFit class\<close>













definition col_mean :: "nat \<Rightarrow> npfloat list list \<Rightarrow> npfloat list" where
  "col_mean k rows =
     map (\<lambda>j. fl_div (py_sum (map (\<lambda>r. r ! j) rows)) (Some (real (length rows)))) [0..<k]"


















section \<open>Properties of the risk module\<close>

lemma test_risk_code:
  assumes "testdist self = Some td"
  shows "test_risk self =
     (let LL = min (fst (speclimits self)) (snd (speclimits self));
          UL = max (fst (speclimits self)) (snd (speclimits self));
          acc = (LL + fst (guardband self) \<le> median td \<and> median td \<le> UL - fst (guardband self))
      in Inr (if acc then cdf td LL + (1 - cdf td UL) else \<bar>cdf td LL - cdf td UL\<bar>, acc))"
  using assms by (simp add: test_risk_def Let_def)

text \<open>
  C1.  \<open>test_risk\<close> is claimed to accept exactly when the median of the test distribution
  lies in \<open>[LL + GBL, UL - GBU]\<close>.  With limits \<open>(-1, 1)\<close>, guard band \<open>(0, 0.5)\<close> and a
  test distribution of median \<open>0.8\<close> the median is outside that interval (\<open>0.8 > 0.5\<close>), yet
  the code accepts and reports the false accept risk \<open>0.3\<close> instead of rejecting with
  risk \<open>0.7\<close>: the upper end of the interval is computed with \<open>GBL\<close>.
\<close>

theorem test_risk_ignores_upper_guardband:
  "test_risk risk_asym = Inr (3/10, True)
   \<and> \<not> in_acceptance_interval risk_asym (median uniform_03_13)
   \<and> \<bar>cdf uniform_03_13 (-1) - cdf uniform_03_13 1\<bar> = 7/10"
  by (simp add: test_risk_def risk_asym_def uniform_03_13_def in_acceptance_interval_def Let_def)

text \<open>
  C2.  \<open>PFAR_MC\<close> is claimed to count a pair toward PFR exactly when the process sample is
  inside both limits and the test sample is on the reject side of a guard-banded limit,
  which is what \<open>PFR\<close> and \<open>_PFR_discrete\<close> integrate (the process value runs over
  \<open>[LL, UL]\<close>).  The Monte Carlo code tests each limit on its own: process below \<open>UL\<close> and
  test above \<open>UL - GBU\<close>, or process above \<open>LL\<close> and test below \<open>LL + GBL\<close>.  For the single
  pair \<open>(-2, 2)\<close> with limits \<open>(-1, 1)\<close> and no guard band the process sample is out of
  tolerance and the test sample is rejected, a correct reject: the stated PFR is \<open>0\<close>.
  The code counts the pair as a false reject, and as a false accept as well, and returns
  PFA \<open>= 1\<close> and PFR \<open>= 1\<close>.
\<close>

theorem PFAR_MC_counts_correct_reject_as_false_reject:
  "PFAR_MC proc_one test_one (-1) 1 0 0 1 = Inr (1, 1)
   \<and> is_FA (-1) 1 0 0 (-2, 2) \<and> is_FR (-1) 1 0 0 (-2, 2)
   \<and> \<not> spec_is_FR (-1) 1 0 0 (-2, 2)
   \<and> real (count_nonzero (map (spec_is_FR (-1) 1 0 0) [(-2, 2)])) / real 1 = 0
   \<and> PFAR_MC proc_one test_one (-1) 1 0 0 1 \<noteq>
       Inr (real (count_nonzero (map (spec_is_FA (-1) 1 0 0) [(-2, 2)])) / real 1,
            real (count_nonzero (map (spec_is_FR (-1) 1 0 0) [(-2, 2)])) / real 1)"
  by (simp add: PFAR_MC_def proc_one_def test_one_def np_broadcast_def count_nonzero_def
      is_FA_def is_FR_def spec_is_FR_def spec_is_FA_def Let_def)



text \<open>
  C7.  For a test uncertainty ratio other than zero, \<open>guardband_norm\<close> returns
  \<open>sqrt (1 - 1/TUR\<^sup>2)\<close> for \<open>rss\<close>, \<open>1 - 1/TUR\<close> up to \<open>TUR = 4\<close> and \<open>1\<close> above it for
  \<open>test\<close>, \<open>1.25 - 1/TUR\<close> up to \<open>TUR = 4\<close> and \<open>1\<close> above it for \<open>rp10\<close>; at the known
  points the values are \<open>0.75\<close>, \<open>1.0\<close> and \<open>sqrt 3 / 2\<close>.
\<close>

theorem guardband_norm_formulas:
  "(TUR \<noteq> 0 \<longrightarrow> guardband_norm pn fs ''rss'' TUR kw = Inr (np_sqrt (1 - 1 / TUR ^ 2)))
   \<and> (TUR \<noteq> 0 \<longrightarrow>
        guardband_norm pn fs ''test'' TUR kw = Inr (Some (if TUR \<le> 4 then 1 - 1 / TUR else 1)))
   \<and> (TUR \<noteq> 0 \<longrightarrow>
        guardband_norm pn fs ''rp10'' TUR kw = Inr (Some (if TUR \<le> 4 then 1.25 - 1 / TUR else 1)))
   \<and> guardband_norm pn fs ''test'' 4 kw = Inr (Some 0.75)
   \<and> guardband_norm pn fs ''rp10'' 4 kw = Inr (Some 1.0)
   \<and> guardband_norm pn fs ''rss'' 2 kw = Inr (Some (sqrt 3 / 2))"
proof -
  have "sqrt (3 / 4) = sqrt 3 / 2"
    by (simp add: real_sqrt_divide)
  then have "np_sqrt (1 - 1 / 2 ^ 2) = Some (sqrt 3 / 2)"
    by (simp add: np_sqrt_def)
  then show ?thesis
    by (simp add: guardband_norm_def)
qed

theorem guardband_norm_formulas_witness:
  "(2::real) \<noteq> 0 \<and> (1::real) \<noteq> 0
   \<and> guardband_norm (\<lambda>i t g. 0) (\<lambda>f x0. x0) ''test'' 2 Map.empty = Inr (Some (1/2))
   \<and> guardband_norm (\<lambda>i t g. 0) (\<lambda>f x0. x0) ''rp10'' 2 Map.empty = Inr (Some (3/4))
   \<and> guardband_norm (\<lambda>i t g. 0) (\<lambda>f x0. x0) ''rss'' 1 Map.empty = Inr (Some 0)"
  using guardband_norm_formulas [of 2 "\<lambda>i t g. 0" "\<lambda>f x0. x0" Map.empty]
    guardband_norm_formulas [of 1 "\<lambda>i t g. 0" "\<lambda>f x0. x0" Map.empty]
  by (simp add: np_sqrt_def)


section \<open>Properties of linefit\<close>

lemma fl_simps [simp]:
  "fl_add (Some u) (Some v) = Some (u + v)"
  "fl_sub (Some u) (Some v) = Some (u - v)"
  "fl_mul (Some u) (Some v) = Some (u * v)"
  "fl_div (Some u) (Some v) = (if v = 0 then None else Some (u / v))"
  "fl_neg (Some u) = Some (- u)"
  "fl_sqrt (Some u) = np_sqrt u"
  by (simp_all add: fl_add_def fl_sub_def fl_mul_def fl_div_def fl_neg_def fl_sqrt_def)

lemma fl_None [simp]:
  "fl_add None b = None" "fl_add a None = None"
  "fl_sub None b = None" "fl_sub a None = None"
  "fl_mul None b = None" "fl_mul a None = None"
  "fl_div None b = None" "fl_div a None = None"
  "fl_neg None = None" "fl_sqrt None = None"
  by (simp_all add: fl_add_def fl_sub_def fl_mul_def fl_div_def fl_neg_def fl_sqrt_def
      split: option.splits)

lemma ebind_simps [simp]:
  "ebind (Inr v) f = f v" "ebind (Inl e) f = Inl e"
  by (simp_all add: ebind_def)

lemma foldl_fl_add_Some:
  "foldl fl_add (Some a) (map Some vs) = Some (a + sum_list vs)"
  by (induction vs arbitrary: a) (simp_all add: add.assoc)

lemma py_sum_Some [simp]: "py_sum (map Some vs) = Some (sum_list vs)"
  by (simp add: py_sum_def foldl_fl_add_Some)

lemma arr_op_Some:
  assumes "length us = length vs"
    and "\<And>u v. (u, v) \<in> set (zip us vs) \<Longrightarrow> f (Some u) (Some v) = Some (g u v)"
  shows "arr_op f (map Some us) (map Some vs) = Inr (map Some (map (\<lambda>(u, v). g u v) (zip us vs)))"
  using assms by (auto simp add: arr_op_def np_broadcast_def zip_map_map)


lemma linefit_unweighted_eval:
  assumes "length xs = length ys" and "xs \<noteq> []"
  shows "linefit_unweighted (map Some xs) (map Some ys) =
     Inr (Some (sum_list xs), Some (sum_list ys), Some (real (length xs)), Some (mean_x xs),
          Some (st2_of xs),
          fl_div (Some (\<Sum>(v, w)\<leftarrow>zip xs ys. (v - mean_x xs) * w)) (Some (st2_of xs)))"
proof -
  have t: "map (\<lambda>v. fl_sub v (Some (mean_x xs))) (map Some xs) = map Some (map (\<lambda>v. v - mean_x xs) xs)"
    by simp
  have tt: "map (\<lambda>v. fl_mul v v) (map Some (map (\<lambda>v. v - mean_x xs) xs)) =
            map Some (map (\<lambda>v. (v - mean_x xs) * (v - mean_x xs)) xs)"
    by simp
  have ty: "arr_op fl_mul (map Some (map (\<lambda>v. v - mean_x xs) xs)) (map Some ys) =
            Inr (map Some (map (\<lambda>(u, v). u * v) (zip (map (\<lambda>v. v - mean_x xs) xs) ys)))"
    using assms(1) by (intro arr_op_Some) simp_all
  have z: "map (\<lambda>(u, v). u * v) (zip (map (\<lambda>v. v - mean_x xs) xs) ys) =
           map (\<lambda>(v, w). (v - mean_x xs) * w) (zip xs ys)"
    by (simp add: zip_map1 case_prod_unfold comp_def)
  have n0: "real (length xs) \<noteq> 0" using assms(2) by simp
  show ?thesis
    unfolding linefit_unweighted_def Let_def
    using assms(2) n0
    by (simp add: t[unfolded mean_x_def] tt[unfolded mean_x_def] ty[unfolded mean_x_def] z[unfolded mean_x_def] st2_of_def mean_x_def del: map_map)
qed





lemma arr_sub_Some:
  assumes "length us = length vs"
  shows "arr_op fl_sub (map Some us) (map Some vs) = Inr (map Some (map (\<lambda>(u, v). u - v) (zip us vs)))"
  by (rule arr_op_Some [OF assms]) simp



lemma map_sq_Some: "map (\<lambda>v. fl_mul v v) (map Some us) = map Some (map (\<lambda>u. u * u) us)"
  by simp







lemma st2_of_nonneg: "0 \<le> st2_of xs"
  unfolding st2_of_def by (rule sum_list_nonneg) auto

lemma sq_sqrt_prod:
  assumes "0 \<le> u" and "0 \<le> w"
  shows "sqrt u * sqrt w * (sqrt u * sqrt w) = u * w"
proof -
  have "sqrt u * sqrt w * (sqrt u * sqrt w) = (sqrt u * sqrt u) * (sqrt w * sqrt w)"
    by (simp add: mult_ac)
  then show ?thesis using assms by simp
qed

lemma resid_Some:
  assumes len: "length xs = length ys"
  shows "linefit_resid (map Some xs) (map Some ys) (Some a) (Some b) =
         Inr (map Some (map (\<lambda>(v, w). w - a - b * v) (zip xs ys)))"
proof -
  have "linefit_resid (map Some xs) (map Some ys) (Some a) (Some b) =
        arr_op fl_sub (map Some (map (\<lambda>w. w - a) ys)) (map Some (map (\<lambda>v. b * v) xs))"
    by (simp add: linefit_resid_def comp_def)
  also have "\<dots> = Inr (map Some (map (\<lambda>(u, v). u - v)
                 (zip (map (\<lambda>w. w - a) ys) (map (\<lambda>v. b * v) xs))))"
    using len by (intro arr_sub_Some) simp
  also have "map (\<lambda>(u, v). u - v) (zip (map (\<lambda>w. w - a) ys) (map (\<lambda>v. b * v) xs)) =
             map (\<lambda>(v, w). w - a - b * v) (zip xs ys)"
    using len
  proof (induction xs ys rule: list_induct2)
    case Nil
    then show ?case by simp
  next
    case (Cons x xs y ys)
    then show ?case by simp
  qed
  finally show ?thesis .
qed

lemma syx_Some:
  assumes n3: "3 \<le> length xs"
  shows "fl_sqrt (fl_div
           (py_sum (map (\<lambda>v. fl_mul v v)
              (map Some (map (\<lambda>(v, w). w - intercept_of xs ys - slope_of xs ys * v) (zip xs ys)))))
           (len_minus_2 (map Some xs))) = Some (sqrt (syx2_of xs ys))
         \<and> 0 \<le> syx2_of xs ys"
proof -
  let ?R = "\<Sum>(v, w)\<leftarrow>zip xs ys. (w - intercept_of xs ys - slope_of xs ys * v)
                             * (w - intercept_of xs ys - slope_of xs ys * v)"
  have R0: "0 \<le> ?R" by (rule sum_list_nonneg) auto
  have sq: "map (\<lambda>v. fl_mul v v)
              (map Some (map (\<lambda>(v, w). w - intercept_of xs ys - slope_of xs ys * v) (zip xs ys))) =
            map Some (map (\<lambda>(v, w). (w - intercept_of xs ys - slope_of xs ys * v)
                             * (w - intercept_of xs ys - slope_of xs ys * v)) (zip xs ys))"
    by (simp add: case_prod_unfold)
  have l2: "len_minus_2 (map Some xs) = Some (real (length xs) - 2)"
    using n3 by (simp add: len_minus_2_def)
  have pos: "0 < real (length xs) - 2" using n3 by simp
  have s0: "0 \<le> syx2_of xs ys"
    unfolding syx2_of_def using R0 pos by simp
  have "fl_div (Some ?R) (Some (real (length xs) - 2)) = Some (syx2_of xs ys)"
    using pos by (simp add: syx2_of_def)
  then show ?thesis
    unfolding sq py_sum_Some l2 using s0 by (simp add: np_sqrt_def)
qed

lemma linefit_unweighted_closed:
  assumes len: "length xs = length ys" and n3: "3 \<le> length xs" and D: "st2_of xs \<noteq> 0"
    and z: "\<not> all_gt_0 (sig_full xs sig0)"
  shows "linefit xs ys sig0 absolute_sigma =
     Inr ([Some (slope_of xs ys), Some (intercept_of xs ys)],
          [[Some (syx2_of xs ys / st2_of xs), Some (- mean_x xs * syx2_of xs ys / st2_of xs)],
           [Some (- mean_x xs * syx2_of xs ys / st2_of xs),
            Some ((1 + sum_list xs * sum_list xs / (real (length xs) * st2_of xs))
                  / real (length xs) * syx2_of xs ys)]])"
proof -
  let ?n = "real (length xs)"
  let ?D = "st2_of xs"
  let ?S = "syx2_of xs ys"
  let ?X = "sum_list xs"
  have ne: "xs \<noteq> []" using n3 by auto
  have n0: "?n \<noteq> 0" "0 < ?n" using ne by simp_all
  have Dp: "0 < ?D" using D st2_of_nonneg [of xs] by simp
  have b: "fl_div (Some (\<Sum>(v, w)\<leftarrow>zip xs ys. (v - mean_x xs) * w)) (Some ?D) = Some (slope_of xs ys)"
    using D by (simp add: slope_of_def)
  have a: "fl_div (fl_sub (Some (sum_list ys)) (fl_mul (Some ?X) (Some (slope_of xs ys)))) (Some ?n) =
           Some (intercept_of xs ys)"
    using n0 by (simp add: intercept_of_def)
  have syx: "fl_sqrt (fl_div
           (py_sum (map (\<lambda>v. fl_mul v v)
              (map Some (map (\<lambda>(v, w). w - intercept_of xs ys - slope_of xs ys * v) (zip xs ys)))))
           (len_minus_2 (map Some xs))) = Some (sqrt ?S)" and S0: "0 \<le> ?S"
    using syx_Some [OF n3, of ys] by simp_all
  have sigb: "fl_sqrt (fl_div (Some 1) (Some ?D)) = Some (sqrt (1 / ?D))"
    using Dp by (simp add: np_sqrt_def)
  have A0: "0 \<le> (1 + ?X * ?X / (?n * ?D)) / ?n"
    using Dp n0 by (intro divide_nonneg_nonneg add_nonneg_nonneg) simp_all
  have siga: "fl_sqrt (fl_div (fl_add (Some 1) (fl_div (fl_mul (Some ?X) (Some ?X))
                 (fl_mul (Some ?n) (Some ?D)))) (Some ?n)) =
              Some (sqrt ((1 + ?X * ?X / (?n * ?D)) / ?n))"
    using Dp n0 A0 by (simp add: np_sqrt_def not_less [symmetric])
  have e1: "sqrt (1 / ?D) * sqrt ?S * (sqrt (1 / ?D) * sqrt ?S) = ?S / ?D"
    using sq_sqrt_prod [of "1 / ?D" ?S] Dp S0 by simp
  have e2: "- mean_x xs * (sqrt (1 / ?D) * sqrt (1 / ?D)) * sqrt ?S * sqrt ?S = - mean_x xs * ?S / ?D"
  proof -
    have "sqrt (1 / ?D) * sqrt (1 / ?D) = 1 / ?D" using Dp by simp
    moreover have "sqrt ?S * sqrt ?S = ?S" using S0 by simp
    ultimately show ?thesis by (simp add: mult.assoc)
  qed
  have e3: "sqrt ((1 + ?X * ?X / (?n * ?D)) / ?n) * sqrt ?S *
            (sqrt ((1 + ?X * ?X / (?n * ?D)) / ?n) * sqrt ?S) =
            (1 + ?X * ?X / (?n * ?D)) / ?n * ?S"
    using sq_sqrt_prod [OF A0 S0] .
  show ?thesis
    unfolding linefit_def Let_def
    apply (simp only: z if_False if_True not_False_eq_True linefit_unweighted_eval [OF len ne]
        ebind_simps prod.case)
    apply (simp only: b)
    apply (simp only: a)
    apply (simp only: resid_Some [OF len] ebind_simps)
    apply (simp only: syx sigb siga)
    apply (simp only: fl_simps e1 e2 e3)
    done
qed









lemma all_gt_0_iff: "all_gt_0 sg \<longleftrightarrow> (\<forall>s\<in>set sg. s \<noteq> 0)"
  by (simp add: all_gt_0_def py_all_def list_all_iff)

lemma linefit_not_all_gt_0:
  assumes "\<not> all_gt_0 (sig_full xs sig0)" and "\<not> all_gt_0 (sig_full xs sig1)"
  shows "linefit xs ys sig0 abs0 = linefit xs ys sig1 abs1"
  unfolding linefit_def Let_def using assms by (simp only: if_False if_True not_False_eq_True)

text \<open>
  C10.  The weighted branch of \<open>linefit\<close> is taken exactly when no element of \<open>sig\<close> is
  zero, and then every weight \<open>1/sig\<^sup>2\<close> is finite.  When some element of \<open>sig\<close> is zero
  the result does not depend on \<open>sig\<close> or on \<open>absolute_sigma\<close> at all: it is the
  unweighted fit, whose variances and covariance carry the factor \<open>syx\<^sup>2\<close> computed
  from the residuals.
\<close>

theorem linefit_zero_sig_is_unweighted:
  "(all_gt_0 (sig_full xs sig0) \<longleftrightarrow> (\<forall>s\<in>set (sig_full xs sig0). s \<noteq> 0))
   \<and> (all_gt_0 (sig_full xs sig0) \<longrightarrow> None \<notin> set (linefit_wt (map Some (sig_full xs sig0))))
   \<and> (0 \<in> set (sig_full xs sig0) \<longrightarrow>
        (\<forall>sig1 abs1. 0 \<in> set (sig_full xs sig1) \<longrightarrow>
            linefit xs ys sig0 abs0 = linefit xs ys sig1 abs1)
        \<and> (length xs = length ys \<and> 3 \<le> length xs \<and> st2_of xs \<noteq> 0 \<longrightarrow>
            linefit xs ys sig0 abs0 =
              Inr ([Some (slope_of xs ys), Some (intercept_of xs ys)],
                   [[Some (syx2_of xs ys / st2_of xs),
                     Some (- mean_x xs * syx2_of xs ys / st2_of xs)],
                    [Some (- mean_x xs * syx2_of xs ys / st2_of xs),
                     Some ((1 + sum_list xs * sum_list xs / (real (length xs) * st2_of xs))
                           / real (length xs) * syx2_of xs ys)]])))"
proof (intro conjI impI allI)
  show "all_gt_0 (sig_full xs sig0) \<longleftrightarrow> (\<forall>s\<in>set (sig_full xs sig0). s \<noteq> 0)"
    by (rule all_gt_0_iff)
next
  assume "all_gt_0 (sig_full xs sig0)"
  then have "\<forall>s\<in>set (sig_full xs sig0). s \<noteq> 0" by (simp add: all_gt_0_iff)
  then show "None \<notin> set (linefit_wt (map Some (sig_full xs sig0)))"
    by (auto simp add: linefit_wt_def)
next
  fix sig1 abs1
  assume "0 \<in> set (sig_full xs sig0)" and "0 \<in> set (sig_full xs sig1)"
  then have "\<not> all_gt_0 (sig_full xs sig0)" and "\<not> all_gt_0 (sig_full xs sig1)"
    by (auto simp add: all_gt_0_iff)
  then show "linefit xs ys sig0 abs0 = linefit xs ys sig1 abs1"
    by (rule linefit_not_all_gt_0)
next
  assume z: "0 \<in> set (sig_full xs sig0)"
    and d: "length xs = length ys \<and> 3 \<le> length xs \<and> st2_of xs \<noteq> 0"
  from z have nz: "\<not> all_gt_0 (sig_full xs sig0)" by (auto simp add: all_gt_0_iff)
  from d show "linefit xs ys sig0 abs0 =
              Inr ([Some (slope_of xs ys), Some (intercept_of xs ys)],
                   [[Some (syx2_of xs ys / st2_of xs),
                     Some (- mean_x xs * syx2_of xs ys / st2_of xs)],
                    [Some (- mean_x xs * syx2_of xs ys / st2_of xs),
                     Some ((1 + sum_list xs * sum_list xs / (real (length xs) * st2_of xs))
                           / real (length xs) * syx2_of xs ys)]])"
    using linefit_unweighted_closed [OF _ _ _ nz] by blast
qed

lemma example_data_values:
  "mean_x [0, 1, 2] = 1" "st2_of [0, 1, 2] = 2"
  "slope_of [0, 1, 2] [1, 3, 6] = 5 / 2" "intercept_of [0, 1, 2] [1, 3, 6] = 5 / 6"
  "syx2_of [0, 1, 2] [1, 3, 6] = 1 / 6"
proof -
  show m: "mean_x [0, 1, 2] = 1" by (simp add: mean_x_def)
  show d: "st2_of [0, 1, 2] = 2" by (simp add: st2_of_def m)
  show b: "slope_of [0, 1, 2] [1, 3, 6] = 5 / 2" by (simp add: slope_of_def m d)
  show a: "intercept_of [0, 1, 2] [1, 3, 6] = 5 / 6" by (simp add: intercept_of_def b)
  show "syx2_of [0, 1, 2] [1, 3, 6] = 1 / 6" by (simp add: syx2_of_def a b)
qed


theorem linefit_zero_sig_is_unweighted_witness:
  "0 \<in> set (sig_full [0, 1, 2] [2, 0, 1]) \<and> 0 \<in> set (sig_full [0, 1, 2] [0])
   \<and> length [0, 1, 2 :: real] = length [1, 3, 6 :: real] \<and> 3 \<le> length [0, 1, 2 :: real]
   \<and> st2_of [0, 1, 2] \<noteq> 0
   \<and> linefit [0, 1, 2] [1, 3, 6] [2, 0, 1] False = linefit [0, 1, 2] [1, 3, 6] [0] True
   \<and> linefit [0, 1, 2] [1, 3, 6] [2, 0, 1] False =
       Inr ([Some (5 / 2), Some (5 / 6)],
            [[Some (1 / 12), Some (- 1 / 12)], [Some (- 1 / 12), Some (5 / 36)]])
   \<and> all_gt_0 (sig_full [0, 1, 2] [2, 1, 4])
   \<and> None \<notin> set (linefit_wt (map Some (sig_full [0, 1, 2] [2, 1, 4])))"
proof -
  have z0: "0 \<in> set (sig_full [0, 1, 2] [2, 0, 1])" by (simp add: sig_full_def)
  have z1: "0 \<in> set (sig_full [0, 1, 2] [0])" by (simp add: sig_full_def)
  have g: "all_gt_0 (sig_full [0, 1, 2] [2, 1, 4])"
    by (simp add: sig_full_def all_gt_0_def py_all_def)
  have d: "length [0, 1, 2 :: real] = length [1, 3, 6 :: real] \<and> 3 \<le> length [0, 1, 2 :: real]
           \<and> st2_of [0, 1, 2] \<noteq> 0"
    by (simp add: example_data_values)
  note t1 = linefit_zero_sig_is_unweighted [of "[0, 1, 2]" "[2, 0, 1]" "[1, 3, 6]" False]
  note t2 = linefit_zero_sig_is_unweighted [of "[0, 1, 2]" "[2, 1, 4]" "[1, 3, 6]" False]
  from t1 z0 z1 have e: "linefit [0, 1, 2] [1, 3, 6] [2, 0, 1] False = linefit [0, 1, 2] [1, 3, 6] [0] True"
    by blast
  from t1 z0 d have f: "linefit [0, 1, 2] [1, 3, 6] [2, 0, 1] False =
       Inr ([Some (slope_of [0, 1, 2] [1, 3, 6]), Some (intercept_of [0, 1, 2] [1, 3, 6])],
            [[Some (syx2_of [0, 1, 2] [1, 3, 6] / st2_of [0, 1, 2]),
              Some (- mean_x [0, 1, 2] * syx2_of [0, 1, 2] [1, 3, 6] / st2_of [0, 1, 2])],
             [Some (- mean_x [0, 1, 2] * syx2_of [0, 1, 2] [1, 3, 6] / st2_of [0, 1, 2]),
              Some ((1 + sum_list [0, 1, 2] * sum_list [0, 1, 2] / (real (length [0, 1, 2 :: real]) * st2_of [0, 1, 2]))
                    / real (length [0, 1, 2 :: real]) * syx2_of [0, 1, 2] [1, 3, 6])]])"
    by blast
  from t2 g have w: "None \<notin> set (linefit_wt (map Some (sig_full [0, 1, 2] [2, 1, 4])))"
    by blast
  from f have f': "linefit [0, 1, 2] [1, 3, 6] [2, 0, 1] False =
       Inr ([Some (5 / 2), Some (5 / 6)],
            [[Some (1 / 12), Some (- 1 / 12)], [Some (- 1 / 12), Some (5 / 36)]])"
    by (simp add: example_data_values)
  show ?thesis using z0 z1 d e f' g w by simp
qed


section \<open>Properties of configuration loading and of CurveFitParam\<close>

text \<open>
  C4.  \<open>from_configfile\<close> is claimed to return \<open>None\<close> whenever the content does not parse.
  On the document \<open>[1, 2\<close> the YAML library raises \<open>ParserError\<close>, which the handler for
  \<open>ScannerError\<close> does not catch: the call raises.  A document that stops the scanner, and
  a file that cannot be decoded, give \<open>None\<close>; a well-formed document loads.
\<close>

theorem from_configfile_parser_error_raises:
  "from_configfile safe_load_sample from_config_sample (FileName (Inr ''[1, 2'')) =
     Inl (YAMLError ParserError)
   \<and> from_configfile safe_load_sample from_config_sample (FileObject (Inr ''[1, 2'')) =
     Inl (YAMLError ParserError)
   \<and> from_configfile safe_load_sample from_config_sample (FileName (Inr ''a: b: c'')) = Inr None
   \<and> from_configfile safe_load_sample from_config_sample (FileName (Inl UnicodeDecodeError)) = Inr None
   \<and> from_configfile safe_load_sample from_config_sample (FileName (Inr ''- {mode: risk}'')) =
     Inr (Some (YMap [(''mode'', YStr ''risk'')]))"
  by (simp add: from_configfile_def read_fname_def safe_load_sample_def from_config_sample_def
      subscript0_def)

lemma from_configfile_cases:
  "from_configfile safe_load from_config f =
     (case read_fname f of
        Inl e \<Rightarrow> if e = UnicodeDecodeError then Inr None else Inl e
      | Inr yml \<Rightarrow>
          (case safe_load yml of
             Inl e \<Rightarrow> if e = YAMLError ScannerError then Inr None else Inl e
           | Inr config \<Rightarrow>
               (case subscript0 config of Inl e \<Rightarrow> Inl e
                | Inr c0 \<Rightarrow> map_sum id Some (from_config c0))))"
  by (simp add: from_configfile_def ebind_def split: sum.splits)

lemma stdunc_pred_cached:
  assumes "mode self = ''pred''"
    and "outputs self ''lsq'' = Some out \<or>
         (outputs self ''lsq'' = None \<and> outputs self ''mc'' = Some out) \<or>
         (outputs self ''lsq'' = None \<and> outputs self ''mc'' = None \<and> outputs self ''gum'' = Some out)"
    and "out ''u_pred'' = Some (Fn f)"
  shows "stdunc lsq self = (Inr (f (pidx self)), self)"
  using assms by (auto simp add: stdunc_def getattr_def call_attr_def ebind_def)

lemma stdunc_pred_uncached:
  assumes "mode self = ''pred''"
    and "outputs self ''lsq'' = None" "outputs self ''mc'' = None" "outputs self ''gum'' = None"
    and "r_properties rec ''u_predy'' = None"
  shows "fst (stdunc (Inr rec) self) = Inl AttributeError"
  using assms
  by (simp add: stdunc_def param_calc_LSQ_def create_output_def getattr_def ebind_def Let_def)

text \<open>
  C3.  In mode \<open>pred\<close> with an empty cache, \<open>stdunc\<close> computes the least squares record
  and then reads the attribute \<open>u_predy\<close>, which no output has: the call raises
  \<open>AttributeError\<close> instead of returning the prediction band at \<open>pidx\<close> (here \<open>3\<close>).  The
  record is cached by then, so a second call returns the value through \<open>u_pred\<close>.
\<close>

theorem stdunc_pred_lazy_raises:
  "fst (stdunc (Inr lsq_sample) param_sample) = Inl AttributeError
   \<and> r_u_pred lsq_sample (pidx param_sample) = Some 3
   \<and> fst (stdunc (Inr lsq_sample) (snd (stdunc (Inr lsq_sample) param_sample))) = Inr (Some 3)"
  by (simp add: stdunc_def param_calc_LSQ_def create_output_def getattr_def call_attr_def
      ebind_def Let_def lsq_sample_def param_sample_def)


section \<open>Properties of the four fit methods\<close>




lemma length_col_mean [simp]: "length (col_mean k rows) = k"
  by (simp add: col_mean_def)
































end
